theory Spec2Isabelle
  imports Complex_Main "HOL-Library.Char_ord" "HOL-Library.List_Lexorder" "HOL-Library.Sublist"
begin

section \<open>The earthquake dashboard of script.js\<close>

text \<open>
  The model follows \<^verbatim>\<open>script.js\<close> function by function. JavaScript is untyped; the
  model gives every value the type the USGS GeoJSON feed gives it, and an \<open>option\<close>
  wherever the script itself guards against \<^verbatim>\<open>null\<close> or \<^verbatim>\<open>undefined\<close>
  (\<open>None\<close> stands for both: every test the script makes, \<^verbatim>\<open>x != null\<close>, \<^verbatim>\<open>x || d\<close>,
  \<^verbatim>\<open>x && e\<close>, treats the two alike).

  \<^item> A number of the feed is a finite double, hence a rational number, and the script
    only \<^emph>\<open>compares\<close> magnitudes and depths; comparison of doubles is exact, so these
    numbers are \<open>real\<close>. \<^verbatim>\<open>NaN\<close> cannot come out of \<^verbatim>\<open>JSON.parse\<close>; where the
    runtime can produce it (\<^verbatim>\<open>parseFloat\<close>, an invalid \<^verbatim>\<open>Date\<close>) it is \<open>None\<close>.
    The one product the script computes (the marker radius) uses the runtime's rounding
    multiplication, which is a parameter there.
  \<^item> An epoch timestamp is an \<open>int\<close> (milliseconds).
  \<^item> A string is a list of code units below 256, read as Latin-1.
  \<^item> The module-level variables and the form fields are the record \<open>page\<close>, passed in
    and returned.
\<close>

subsection \<open>Strings of the runtime\<close>

text \<open>\<^verbatim>\<open>String.prototype.toLowerCase\<close> on code units below 256: A to Z, and the
  Latin-1 capitals U+00C0 to U+00DE except the multiplication sign U+00D7.\<close>

definition lower_char :: "char \<Rightarrow> char" where
  "lower_char c =
     (let n = (of_char c :: nat)
      in if (65 \<le> n \<and> n \<le> 90) \<or> (192 \<le> n \<and> n \<le> 222 \<and> n \<noteq> 215)
         then char_of (n + 32) else c)"

definition toLowerCase :: "string \<Rightarrow> string" where
  "toLowerCase s = map lower_char s"

text \<open>White space and line terminators of ECMAScript below 256: TAB, LF, VT, FF, CR,
  space and the no-break space.\<close>

definition is_space :: "char \<Rightarrow> bool" where
  "is_space c = ((of_char c :: nat) \<in> {9, 10, 11, 12, 13, 32, 160})"

definition trim :: "string \<Rightarrow> string" where
  "trim s = rev (dropWhile is_space (rev (dropWhile is_space s)))"

text \<open>\<^verbatim>\<open>hay.includes(needle)\<close>: the needle starts at some position of the haystack.\<close>

fun includes_str :: "string \<Rightarrow> string \<Rightarrow> bool" where
  "includes_str [] needle = (needle = [])"
| "includes_str (c # cs) needle = (prefix needle (c # cs) \<or> includes_str cs needle)"

text \<open>Decimal digits of a natural number, as a template literal prints it.\<close>

fun show_nat :: "nat \<Rightarrow> string" where
  "show_nat n =
     (if n < 10 then [''0123456789'' ! n]
      else show_nat (n div 10) @ [''0123456789'' ! (n mod 10)])"

declare show_nat.simps [simp del]

subsection \<open>Data of the feed and of the pipeline\<close>

text \<open>A feature of the feed: \<^verbatim>\<open>f.id\<close>, \<^verbatim>\<open>f.properties.{time,mag,place,url}\<close> and
  \<^verbatim>\<open>f.geometry.coordinates\<close>. An element of the feature list is an object: the script
  reads \<^verbatim>\<open>f.properties\<close> of each element with no guard.\<close>

record properties =
  prop_time :: "int option"
  prop_mag :: "real option"
  prop_place :: "string option"
  prop_url :: "string option"

record geometry =
  coordinates :: "real option list option"

record feature =
  feature_id :: "string option"
  feature_properties :: "properties option"
  feature_geometry :: "geometry option"

text \<open>The object literal that the \<^verbatim>\<open>map\<close> callback of \<^verbatim>\<open>normalizeFeatures\<close> builds;
  \<open>time\<close> and \<open>mag\<close> may still be absent.\<close>

record shaped =
  s_id :: "string option"
  s_time :: "int option"
  s_mag :: "real option"
  s_place :: "string option"
  s_url :: "string option"
  s_depth :: "real option"
  s_lon :: "real option"
  s_lat :: "real option"

text \<open>The same object once the \<^verbatim>\<open>filter\<close> of \<^verbatim>\<open>normalizeFeatures\<close> has kept it:
  \<open>time\<close> and \<open>mag\<close> are present.\<close>

record event =
  id_r :: "string option"
  time :: int
  mag :: real
  place :: "string option"
  url :: "string option"
  depth :: "real option"
  lon :: "real option"
  lat :: "real option"

subsection \<open>normalizeFeatures\<close>

text \<open>\<^verbatim>\<open>coords[i]\<close>: \<^verbatim>\<open>undefined\<close> past the end of the array.\<close>

definition at_index :: "real option list \<Rightarrow> nat \<Rightarrow> real option" where
  "at_index coords i = (if i < length coords then coords ! i else None)"

text \<open>\<^verbatim>\<open>f.properties || {}\<close>\<close>

definition props_of :: "feature \<Rightarrow> properties" where
  "props_of f =
     (case feature_properties f of
        Some p \<Rightarrow> p
      | None \<Rightarrow> \<lparr>prop_time = None, prop_mag = None, prop_place = None, prop_url = None\<rparr>)"

text \<open>\<^verbatim>\<open>f.geometry && f.geometry.coordinates ? f.geometry.coordinates : [null,null,null]\<close>
  (an array is truthy, also the empty one).\<close>

definition coords_of :: "feature \<Rightarrow> real option list" where
  "coords_of f =
     (case feature_geometry f of
        None \<Rightarrow> [None, None, None]
      | Some g \<Rightarrow> (case coordinates g of None \<Rightarrow> [None, None, None] | Some cs \<Rightarrow> cs))"

definition shape :: "feature \<Rightarrow> shaped" where
  "shape f =
     (let props = props_of f; coords = coords_of f
      in \<lparr>s_id = feature_id f,
          s_time = prop_time props,
          s_mag = prop_mag props,
          s_place = prop_place props,
          s_url = prop_url props,
          s_depth = at_index coords 2,
          s_lon = at_index coords 0,
          s_lat = at_index coords 1\<rparr>)"

text \<open>The \<^verbatim>\<open>filter\<close> callback \<^verbatim>\<open>r.mag != null && r.time != null\<close>: a kept object is
  the same object, its \<open>time\<close> and \<open>mag\<close> now typed as present.\<close>

definition kept :: "shaped \<Rightarrow> event option" where
  "kept r =
     (case s_mag r of
        None \<Rightarrow> None
      | Some m \<Rightarrow>
          (case s_time r of
             None \<Rightarrow> None
           | Some t \<Rightarrow>
               Some \<lparr>id_r = s_id r, time = t, mag = m, place = s_place r, url = s_url r,
                     depth = s_depth r, lon = s_lon r, lat = s_lat r\<rparr>))"

definition normalizeFeatures :: "feature list \<Rightarrow> event list" where
  "normalizeFeatures features = List.map_filter kept (map shape features)"

subsection \<open>The page: form fields and module-level variables\<close>

text \<open>\<^verbatim>\<open>STATUS.textContent\<close> is one of three template literals; the model keeps the
  template and the values interpolated into it:
  \<^item> \<open>Fetching w\<close>: \<^verbatim>\<open>Fetching live data from USGS (w)...\<close>
  \<^item> \<open>Fetched n t\<close>: \<^verbatim>\<open>Fetched n events\<close>, a dash, and the local time \<open>t\<close>
  \<^item> \<open>Failed m\<close>: \<^verbatim>\<open>Failed to fetch live data: m\<close>

  \<open>Idle\<close> is the text of the page before the first fetch.\<close>

datatype status = Idle | Fetching string | Fetched nat string | Failed string

text \<open>What a \<^verbatim>\<open>new Chart(ctx, ...)\<close> call is given: type, labels, the data of its one
  dataset and the title (colours left out).\<close>

record chart =
  chart_type :: string
  chart_labels :: "string list"
  chart_data :: "nat list"
  chart_title :: string

text \<open>What \<^verbatim>\<open>L.circle([lat, lon], {...})\<close> and \<^verbatim>\<open>bindPopup\<close> are given; the popup is
  kept as the four values interpolated into its template.\<close>

record circle =
  c_lat :: real
  c_lon :: real
  radius :: real
  color :: string
  fillColor :: string
  popup_mag :: real
  popup_place :: string
  popup_depth :: real
  popup_time :: int

text \<open>\<open>markersLayer\<close> is \<open>None\<close> while \<^verbatim>\<open>map\<close> and \<^verbatim>\<open>markersLayer\<close> are
  \<^verbatim>\<open>null\<close> (\<^verbatim>\<open>initMap\<close> sets both, nothing else does), and the circles of the layer
  group afterwards.\<close>

record page =
  STATUS :: status
  timeWindowEl :: string
  minMagEl :: string
  regionEl :: string
  lineChart :: "chart option"
  barChart :: "chart option"
  pieChart :: "chart option"
  markersLayer :: "circle list option"

subsection \<open>filterRecords\<close>

text \<open>\<^verbatim>\<open>parseFloat(minMagEl.value) || 0\<close>. \<^verbatim>\<open>parseFloat\<close> is the runtime's, a parameter
  \<open>pf\<close> that yields \<open>None\<close> for \<^verbatim>\<open>NaN\<close>; \<^verbatim>\<open>NaN\<close> and \<open>0\<close> are falsy.\<close>

definition minMag_of :: "(string \<Rightarrow> real option) \<Rightarrow> page \<Rightarrow> real" where
  "minMag_of pf pg =
     (case pf (minMagEl pg) of None \<Rightarrow> 0 | Some x \<Rightarrow> (if x = 0 then 0 else x))"

text \<open>\<^verbatim>\<open>(regionEl.value || "").trim().toLowerCase()\<close>\<close>

definition regionText_of :: "page \<Rightarrow> string" where
  "regionText_of pg = toLowerCase (trim (regionEl pg))"

text \<open>The \<^verbatim>\<open>filter\<close> callback. \<^verbatim>\<open>r.place && ...\<close> is falsy for an absent and for an
  empty place.\<close>

definition keeps :: "real \<Rightarrow> string \<Rightarrow> event \<Rightarrow> bool" where
  "keeps minMag regionText r =
     (if mag r < minMag then False
      else if regionText \<noteq> [] then
        (case place r of
           None \<Rightarrow> False
         | Some p \<Rightarrow> p \<noteq> [] \<and> includes_str (toLowerCase p) regionText)
      else True)"

definition filterRecords :: "(string \<Rightarrow> real option) \<Rightarrow> page \<Rightarrow> event list \<Rightarrow> event list" where
  "filterRecords pf pg records =
     (let minMag = minMag_of pf pg; regionText = regionText_of pg
      in filter (keeps minMag regionText) records)"

subsection \<open>Objects used as counters\<close>

text \<open>An object whose values are counts, with its keys in the order \<^verbatim>\<open>Object.keys\<close>
  lists them: the order of insertion (no key of the script is an array index).\<close>

type_synonym counts = "(string \<times> nat) list"

text \<open>\<^verbatim>\<open>obj[k] = v\<close>: an existing key keeps its position, a new key goes last.\<close>

fun assign :: "string \<Rightarrow> nat \<Rightarrow> counts \<Rightarrow> counts" where
  "assign k v [] = [(k, v)]"
| "assign k v (p # ps) = (if fst p = k then (k, v) # ps else p # assign k v ps)"

text \<open>\<^verbatim>\<open>obj[k] || 0\<close>; also \<^verbatim>\<open>obj[k]\<close> for a key that \<^verbatim>\<open>Object.keys(obj)\<close> lists.\<close>

definition count_at :: "counts \<Rightarrow> string \<Rightarrow> nat" where
  "count_at obj k = (case map_of obj k of None \<Rightarrow> 0 | Some n \<Rightarrow> n)"

text \<open>\<^verbatim>\<open>obj[k] = (obj[k] || 0) + 1\<close>, and \<^verbatim>\<open>obj[k]++\<close> for a key of the object.\<close>

definition bump :: "string \<Rightarrow> counts \<Rightarrow> counts" where
  "bump k obj = assign k (count_at obj k + 1) obj"

subsection \<open>buildLineChart\<close>

text \<open>\<^verbatim>\<open>new Date(t)\<close> is a valid date within 8.64e15 ms of the epoch; the getters of an
  invalid date return \<^verbatim>\<open>NaN\<close>.\<close>

definition valid_date :: "int \<Rightarrow> bool" where
  "valid_date t = (- 8640000000000000 \<le> t \<and> t \<le> 8640000000000000)"

text \<open>Month (1 to 12) and day of the month of a day number counted from 1970-01-01, in
  the proleptic Gregorian calendar (years of 365 or 366 days, eras of 400 years counted
  from the first of March).\<close>

definition civil_from_days :: "int \<Rightarrow> int \<times> int" where
  "civil_from_days z0 =
     (let z = z0 + 719468;
          doe = z mod 146097;
          yoe = (doe - doe div 1460 + doe div 36524 - doe div 146096) div 365;
          doy = doe - (365 * yoe + yoe div 4 - yoe div 100);
          mp = (5 * doy + 2) div 153;
          d = doy - (153 * mp + 2) div 5 + 1;
          m = (if mp < 10 then mp + 3 else mp - 9)
      in (m, d))"

definition getUTCHours :: "int \<Rightarrow> nat option" where
  "getUTCHours t = (if valid_date t then Some (nat ((t div 3600000) mod 24)) else None)"

definition getUTCMonth :: "int \<Rightarrow> nat option" where
  "getUTCMonth t =
     (if valid_date t then Some (nat (fst (civil_from_days (t div 86400000)) - 1)) else None)"

definition getUTCDate :: "int \<Rightarrow> nat option" where
  "getUTCDate t =
     (if valid_date t then Some (nat (snd (civil_from_days (t div 86400000)))) else None)"

text \<open>A getter's result inside a template literal.\<close>

definition num_str :: "nat option \<Rightarrow> string" where
  "num_str x = (case x of None \<Rightarrow> ''NaN'' | Some n \<Rightarrow> show_nat n)"

definition label_of :: "string \<Rightarrow> int \<Rightarrow> string" where
  "label_of windowKey t =
     (if windowKey = ''hour'' then num_str (getUTCHours t) @ '':00''
      else if windowKey = ''day'' then
        num_str (map_option Suc (getUTCMonth t)) @ ''/'' @ num_str (getUTCDate t) @ '' ''
          @ num_str (getUTCHours t) @ '':00''
      else num_str (map_option Suc (getUTCMonth t)) @ ''/'' @ num_str (getUTCDate t))"

definition line_step :: "string \<Rightarrow> counts \<Rightarrow> event \<Rightarrow> counts" where
  "line_step windowKey grouped r = bump (label_of windowKey (time r)) grouped"

definition line_grouped :: "string \<Rightarrow> event list \<Rightarrow> counts" where
  "line_grouped windowKey records = foldl (line_step windowKey) [] records"

definition buildLineChart :: "page \<Rightarrow> event list \<Rightarrow> page" where
  "buildLineChart pg records =
     (let grouped = line_grouped (timeWindowEl pg) records;
          labels = sort (map fst grouped);
          data = map (count_at grouped) labels
      in pg\<lparr>lineChart := Some \<lparr>chart_type = ''line'', chart_labels = labels,
                                chart_data = data, chart_title = ''Events over time''\<rparr>\<rparr>)"

subsection \<open>buildBarChart\<close>

definition bar_step :: "counts \<Rightarrow> event \<Rightarrow> counts" where
  "bar_step buckets r =
     (let m = mag r
      in if m < 1 then bump ''0-1'' buckets
         else if m < 2 then bump ''1-2'' buckets
         else if m < 3 then bump ''2-3'' buckets
         else if m < 4 then bump ''3-4'' buckets
         else if m < 5 then bump ''4-5'' buckets
         else bump ''5+'' buckets)"

definition bar_buckets :: "event list \<Rightarrow> counts" where
  "bar_buckets records =
     foldl bar_step
       [(''0-1'', 0), (''1-2'', 0), (''2-3'', 0), (''3-4'', 0), (''4-5'', 0), (''5+'', 0)]
       records"

definition buildBarChart :: "page \<Rightarrow> event list \<Rightarrow> page" where
  "buildBarChart pg records =
     (let buckets = bar_buckets records;
          labels = map fst buckets;
          data = map (count_at buckets) labels
      in pg\<lparr>barChart := Some \<lparr>chart_type = ''bar'', chart_labels = labels,
                               chart_data = data, chart_title = ''Magnitude distribution''\<rparr>\<rparr>)"

subsection \<open>buildPieChart\<close>

record cats =
  shallow :: nat
  intermediate :: nat
  deep :: nat

text \<open>\<^verbatim>\<open>r.depth || 0\<close>\<close>

definition depth_or_0 :: "event \<Rightarrow> real" where
  "depth_or_0 r = (case depth r of None \<Rightarrow> 0 | Some x \<Rightarrow> (if x = 0 then 0 else x))"

definition pie_step :: "cats \<Rightarrow> event \<Rightarrow> cats" where
  "pie_step c r =
     (let d = depth_or_0 r
      in if d < 70 then c\<lparr>shallow := shallow c + 1\<rparr>
         else if d < 300 then c\<lparr>intermediate := intermediate c + 1\<rparr>
         else c\<lparr>deep := deep c + 1\<rparr>)"

definition pie_cats :: "event list \<Rightarrow> cats" where
  "pie_cats records = foldl pie_step \<lparr>shallow = 0, intermediate = 0, deep = 0\<rparr> records"

definition buildPieChart :: "page \<Rightarrow> event list \<Rightarrow> page" where
  "buildPieChart pg records =
     (let c = pie_cats records;
          labels = [''Shallow (0-70km)'', ''Intermediate (70-300km)'', ''Deep (300+ km)''];
          data = [shallow c, intermediate c, deep c]
      in pg\<lparr>pieChart := Some \<lparr>chart_type = ''doughnut'', chart_labels = labels,
                               chart_data = data, chart_title = ''Depth categories''\<rparr>\<rparr>)"

subsection \<open>initMap and updateMap\<close>

text \<open>\<^verbatim>\<open>if(map) return;\<close> and otherwise a new map with an empty layer group.\<close>

definition initMap :: "page \<Rightarrow> page" where
  "initMap pg = (case markersLayer pg of Some ms \<Rightarrow> pg | None \<Rightarrow> pg\<lparr>markersLayer := Some []\<rparr>)"

text \<open>\<^verbatim>\<open>markersLayer.clearLayers()\<close> and \<^verbatim>\<open>markersLayer.addLayer(circle)\<close>; both run
  after \<^verbatim>\<open>initMap\<close>, when the layer group exists.\<close>

definition clearLayers :: "page \<Rightarrow> page" where
  "clearLayers pg = pg\<lparr>markersLayer := map_option (\<lambda>ms. []) (markersLayer pg)\<rparr>"

definition addLayer :: "circle \<Rightarrow> page \<Rightarrow> page" where
  "addLayer c pg = pg\<lparr>markersLayer := map_option (\<lambda>ms. ms @ [c]) (markersLayer pg)\<rparr>"

text \<open>\<^verbatim>\<open>Math.max(4000, (r.mag || 0) * 40000)\<close>, with \<open>fmul\<close> the multiplication of the
  runtime's doubles.\<close>

definition radius_of :: "(real \<Rightarrow> real \<Rightarrow> real) \<Rightarrow> event \<Rightarrow> real" where
  "radius_of fmul r = max 4000 (fmul (if mag r = 0 then 0 else mag r) 40000)"

definition color_of :: "event \<Rightarrow> string" where
  "color_of r =
     (if mag r \<ge> 5 then ''#ff4d4f''
      else if mag r \<ge> 4 then ''#ff9f40''
      else ''#36a2eb'')"

definition circle_of :: "(real \<Rightarrow> real \<Rightarrow> real) \<Rightarrow> event \<Rightarrow> real \<Rightarrow> real \<Rightarrow> circle" where
  "circle_of fmul r la lo =
     (let radius = radius_of fmul r; color = color_of r
      in \<lparr>c_lat = la, c_lon = lo, radius = radius, color = color, fillColor = color,
          popup_mag = mag r,
          popup_place = (case place r of None \<Rightarrow> [] | Some p \<Rightarrow> p),
          popup_depth = depth_or_0 r,
          popup_time = time r\<rparr>)"

text \<open>The \<^verbatim>\<open>forEach\<close> callback: \<^verbatim>\<open>if(r.lat==null || r.lon==null) return;\<close>\<close>

definition map_step :: "(real \<Rightarrow> real \<Rightarrow> real) \<Rightarrow> page \<Rightarrow> event \<Rightarrow> page" where
  "map_step fmul pg r =
     (case lat r of
        None \<Rightarrow> pg
      | Some la \<Rightarrow>
          (case lon r of
             None \<Rightarrow> pg
           | Some lo \<Rightarrow> addLayer (circle_of fmul r la lo) pg))"

definition updateMap :: "(real \<Rightarrow> real \<Rightarrow> real) \<Rightarrow> page \<Rightarrow> event list \<Rightarrow> page" where
  "updateMap fmul pg records =
     (let pg1 = (if markersLayer pg = None then initMap pg else pg);
          pg2 = clearLayers pg1
      in foldl (map_step fmul) pg2 (take 500 records))"

text \<open>A record is geolocated when the callback does not return early on it.\<close>

definition geolocated :: "event \<Rightarrow> bool" where
  "geolocated r = (lat r \<noteq> None \<and> lon r \<noteq> None)"

text \<open>The circle drawn for a geolocated record.\<close>

definition marker_of :: "(real \<Rightarrow> real \<Rightarrow> real) \<Rightarrow> event \<Rightarrow> circle" where
  "marker_of fmul r =
     circle_of fmul r (case lat r of None \<Rightarrow> 0 | Some la \<Rightarrow> la)
       (case lon r of None \<Rightarrow> 0 | Some lo \<Rightarrow> lo)"

subsection \<open>getFeedUrl and fetchEarthquakes\<close>

definition getFeedUrl :: "string \<Rightarrow> string" where
  "getFeedUrl windowKey =
     (if windowKey = ''hour''
        then ''https://earthquake.usgs.gov/earthquakes/feed/v1.0/summary/all_hour.geojson''
      else if windowKey = ''day''
        then ''https://earthquake.usgs.gov/earthquakes/feed/v1.0/summary/all_day.geojson''
      else ''https://earthquake.usgs.gov/earthquakes/feed/v1.0/summary/all_week.geojson'')"

text \<open>What can be thrown inside the \<^verbatim>\<open>try\<close> block, and its \<^verbatim>\<open>message\<close>:
  the rejection of \<^verbatim>\<open>fetch\<close>, the script's own \<^verbatim>\<open>new Error(`HTTP ${res.status}`)\<close>,
  the rejection of \<^verbatim>\<open>res.json()\<close>, and the \<^verbatim>\<open>TypeError\<close> of reading
  \<^verbatim>\<open>geo.features\<close> when the body is the JSON text \<^verbatim>\<open>null\<close>.\<close>

datatype js_error =
    NetworkError string
  | HttpError nat
  | ParseError string
  | NullTypeError

definition message :: "js_error \<Rightarrow> string" where
  "message e =
     (case e of
        NetworkError m \<Rightarrow> m
      | HttpError n \<Rightarrow> ''HTTP '' @ show_nat n
      | ParseError m \<Rightarrow> m
      | NullTypeError \<Rightarrow> ''Cannot read properties of null (reading 'features')'')"

text \<open>The parsed body: \<^verbatim>\<open>null\<close>, or a document with or without a feature list.\<close>

datatype document = NullDoc | Doc "feature list option"

text \<open>A response: its status and what \<^verbatim>\<open>res.json()\<close> settles to (\<open>Inl\<close>: rejected
  with that message). \<^verbatim>\<open>res.ok\<close> is a status from 200 to 299.\<close>

record response =
  res_status :: nat
  res_json :: "string + document"

definition ok :: "response \<Rightarrow> bool" where
  "ok res = (200 \<le> res_status res \<and> res_status res \<le> 299)"

text \<open>What \<^verbatim>\<open>fetch(feed)\<close> settles to.\<close>

datatype fetched = Rejected string | Resolved response

text \<open>The \<^verbatim>\<open>try\<close> block: the status text and the features it returns, or what it
  throws. \<open>now\<close> is \<^verbatim>\<open>new Date().toLocaleTimeString()\<close>.\<close>

definition try_block :: "fetched \<Rightarrow> string \<Rightarrow> js_error + (status \<times> feature list)" where
  "try_block outcome now =
     (case outcome of
        Rejected m \<Rightarrow> Inl (NetworkError m)
      | Resolved res \<Rightarrow>
          if \<not> ok res then Inl (HttpError (res_status res))
          else (case res_json res of
                  Inl m \<Rightarrow> Inl (ParseError m)
                | Inr NullDoc \<Rightarrow> Inl NullTypeError
                | Inr (Doc fo) \<Rightarrow>
                    (let features = (case fo of None \<Rightarrow> [] | Some fs \<Rightarrow> fs)
                     in Inr (Fetched (length features) now, features))))"

text \<open>\<open>net\<close> is the network: what a GET of a URL settles to. The result is \<open>Inl\<close> when
  the function throws (its promise rejects), \<open>Inr\<close> with the new page and the returned
  array otherwise.\<close>

definition fetchEarthquakes ::
  "(string \<Rightarrow> fetched) \<Rightarrow> string \<Rightarrow> page \<Rightarrow> js_error + (page \<times> feature list)" where
  "fetchEarthquakes net now pg =
     (let feed = getFeedUrl (timeWindowEl pg);
          pg1 = pg\<lparr>STATUS := Fetching (timeWindowEl pg)\<rparr>
      in case try_block (net feed) now of
           Inr (st, features) \<Rightarrow> Inr (pg1\<lparr>STATUS := st\<rparr>, features)
         | Inl err \<Rightarrow> Inr (pg1\<lparr>STATUS := Failed (message err)\<rparr>, []))"

text \<open>The failures of a fetch: the network, the status, the parse.\<close>

definition failure :: "fetched \<Rightarrow> bool" where
  "failure outcome =
     (case outcome of
        Rejected m \<Rightarrow> True
      | Resolved res \<Rightarrow> \<not> ok res \<or> isl (res_json res))"

section \<open>Vocabulary of the properties\<close>

subsection \<open>Normalisation\<close>

text \<open>The \<open>i\<close>-th coordinate of a feature: absent when the geometry or its coordinate
  array is missing, or when the array is too short.\<close>

definition coordinate :: "feature \<Rightarrow> nat \<Rightarrow> real option" where
  "coordinate f i =
     (case feature_geometry f of
        None \<Rightarrow> None
      | Some g \<Rightarrow> (case coordinates g of None \<Rightarrow> None | Some cs \<Rightarrow> at_index cs i))"

text \<open>A feature that has both a magnitude and a time.\<close>

definition has_mag_and_time :: "feature \<Rightarrow> bool" where
  "has_mag_and_time f =
     (case feature_properties f of
        None \<Rightarrow> False
      | Some p \<Rightarrow> prop_mag p \<noteq> None \<and> prop_time p \<noteq> None)"

text \<open>The event \<open>e\<close> is the feature \<open>f\<close> normalised: every field copied, the coordinates
  by position.\<close>

definition normalized_from :: "feature \<Rightarrow> event \<Rightarrow> bool" where
  "normalized_from f e =
     (id_r e = feature_id f \<and>
      (case feature_properties f of
         None \<Rightarrow> False
       | Some p \<Rightarrow>
           prop_time p = Some (time e) \<and> prop_mag p = Some (mag e) \<and>
           place e = prop_place p \<and> url e = prop_url p) \<and>
      lon e = coordinate f 0 \<and> lat e = coordinate f 1 \<and> depth e = coordinate f 2)"

subsection \<open>Filtering\<close>

text \<open>Substring containment without regard to case.\<close>

definition contains_ci :: "string \<Rightarrow> string \<Rightarrow> bool" where
  "contains_ci hay needle = sublist (toLowerCase needle) (toLowerCase hay)"

subsection \<open>Depth\<close>

text \<open>The depth of an event in km, a missing depth read as 0.\<close>

definition depth_km :: "event \<Rightarrow> real" where
  "depth_km r = (case depth r of None \<Rightarrow> 0 | Some d \<Rightarrow> d)"

subsection \<open>Magnitude buckets as the specification words them\<close>

text \<open>The counts of the magnitudes in [0,1), [1,2), [2,3), [3,4), [4,5) and from 5 on.\<close>

definition counts_by_interval :: "event list \<Rightarrow> nat list" where
  "counts_by_interval records =
     [length (filter (\<lambda>r. 0 \<le> mag r \<and> mag r < 1) records),
      length (filter (\<lambda>r. 1 \<le> mag r \<and> mag r < 2) records),
      length (filter (\<lambda>r. 2 \<le> mag r \<and> mag r < 3) records),
      length (filter (\<lambda>r. 3 \<le> mag r \<and> mag r < 4) records),
      length (filter (\<lambda>r. 4 \<le> mag r \<and> mag r < 5) records),
      length (filter (\<lambda>r. 5 \<le> mag r) records)]"

subsection \<open>Sample inputs\<close>

text \<open>A page as it is before the first refresh, with a threshold of 3 typed in.\<close>

definition page0 :: page where
  "page0 =
     \<lparr>STATUS = Idle, timeWindowEl = ''day'', minMagEl = ''3'', regionEl = [],
      lineChart = None, barChart = None, pieChart = None, markersLayer = None\<rparr>"

text \<open>An event of magnitude \<open>m\<close> near Anchorage, on 2023-11-14 at 22:13:20 UTC.\<close>

definition quake :: "real \<Rightarrow> event" where
  "quake m =
     \<lparr>id_r = Some ''ak0001'', time = 1700000000000, mag = m,
      place = Some ''10 km N of Anchorage, Alaska'', url = None,
      depth = Some 35, lon = Some (- 150), lat = Some 61\<rparr>"

text \<open>The three features of the end-to-end example, at the times \<open>T1\<close>, \<open>T2\<close> and
  \<open>T3\<close>: magnitude 2.5 in Alaska, magnitude 5.2 in California, and one without a
  magnitude.\<close>

definition alaska :: "int \<Rightarrow> feature" where
  "alaska T1 =
     \<lparr>feature_id = Some ''ak1'',
      feature_properties =
        Some \<lparr>prop_time = Some T1, prop_mag = Some 2.5, prop_place = Some ''Alaska'',
              prop_url = None\<rparr>,
      feature_geometry = Some \<lparr>coordinates = Some [Some (- 150), Some 61, Some 35]\<rparr>\<rparr>"

definition california :: "int \<Rightarrow> feature" where
  "california T2 =
     \<lparr>feature_id = Some ''ci2'',
      feature_properties =
        Some \<lparr>prop_time = Some T2, prop_mag = Some 5.2, prop_place = Some ''California'',
              prop_url = None\<rparr>,
      feature_geometry = Some \<lparr>coordinates = Some [Some (- 118), Some 34, Some 8]\<rparr>\<rparr>"

definition unrated :: "int \<Rightarrow> feature" where
  "unrated T3 =
     \<lparr>feature_id = Some ''xx3'',
      feature_properties =
        Some \<lparr>prop_time = Some T3, prop_mag = None, prop_place = None, prop_url = None\<rparr>,
      feature_geometry = None\<rparr>"

text \<open>A \<^verbatim>\<open>parseFloat\<close> on the strings of one decimal digit; anything else is \<^verbatim>\<open>NaN\<close>.\<close>

definition parse_digit :: "string \<Rightarrow> real option" where
  "parse_digit s =
     (case s of
        [c] \<Rightarrow> (if CHR ''0'' \<le> c \<and> c \<le> CHR ''9''
                then Some (real (of_char c - 48)) else None)
      | _ \<Rightarrow> None)"

section \<open>Properties\<close>

subsection \<open>Normalisation keeps the complete features, in order\<close>

lemma complete_shape_None:
  "\<not> has_mag_and_time f \<Longrightarrow> kept (shape f) = None"
  by (auto simp: has_mag_and_time_def kept_def shape_def props_of_def Let_def
      split: option.splits)

lemma complete_shape_Some:
  assumes "has_mag_and_time f"
  shows "\<exists>e. kept (shape f) = Some e \<and> normalized_from f e"
proof -
  from assms obtain p m t where p: "feature_properties f = Some p"
    and m: "prop_mag p = Some m" and t: "prop_time p = Some t"
    by (auto simp: has_mag_and_time_def split: option.splits)
  have n: "at_index [None, None, None] i = None" for i
    by (cases i) (simp_all add: at_index_def nth_Cons split: nat.splits)
  have c: "at_index (coords_of f) i = coordinate f i" for i
    by (simp add: coords_of_def coordinate_def n split: option.splits)
  show ?thesis
    using p m t
    by (simp add: kept_def shape_def props_of_def normalized_from_def c Let_def)
qed

lemma normalize_Cons:
  "normalizeFeatures (f # fs) =
     (case kept (shape f) of None \<Rightarrow> normalizeFeatures fs
      | Some e \<Rightarrow> e # normalizeFeatures fs)"
  by (simp add: normalizeFeatures_def map_filter_simps split: option.splits)

lemma normalize_all2:
  "list_all2 normalized_from (filter has_mag_and_time features) (normalizeFeatures features)"
proof (induction features)
  case Nil
  show ?case by (simp add: normalizeFeatures_def map_filter_simps)
next
  case (Cons f fs)
  show ?case
  proof (cases "has_mag_and_time f")
    case True
    then obtain e where "kept (shape f) = Some e" "normalized_from f e"
      using complete_shape_Some by blast
    with True Cons.IH show ?thesis by (simp add: normalize_Cons)
  next
    case False
    with Cons.IH show ?thesis by (simp add: normalize_Cons complete_shape_None)
  qed
qed

subsection \<open>The filter predicate\<close>

lemma keeps_mono: "a \<le> b \<Longrightarrow> keeps b rt r \<Longrightarrow> keeps a rt r"
  by (auto simp: keeps_def split: if_splits)

lemma includes_str_sublist: "includes_str hay needle = sublist needle hay"
  by (induction hay) (simp_all add: sublist_Cons_right)

lemma toLowerCase_Nil: "(toLowerCase s = []) = (s = [])"
  by (simp add: toLowerCase_def)

lemma keeps_iff:
  "keeps minMag (toLowerCase rt) r =
     (minMag \<le> mag r \<and> (rt = [] \<or> (\<exists>p. place r = Some p \<and> contains_ci p rt)))"
proof (cases "rt = []")
  case True
  then show ?thesis by (auto simp: keeps_def toLowerCase_def)
next
  case False
  have "\<not> sublist (toLowerCase rt) []" using False by (simp add: toLowerCase_Nil)
  then have "contains_ci p rt \<Longrightarrow> p \<noteq> []" for p
    by (auto simp: contains_ci_def toLowerCase_def)
  with False show ?thesis
    by (auto simp: keeps_def toLowerCase_Nil includes_str_sublist contains_ci_def
        split: option.splits)
qed

lemma filterRecords_char:
  "filterRecords pf pg records =
     filter (\<lambda>r. minMag_of pf pg \<le> mag r \<and>
                 (trim (regionEl pg) = [] \<or>
                  (\<exists>p. place r = Some p \<and> contains_ci p (trim (regionEl pg)))))
       records"
  by (simp add: filterRecords_def regionText_of_def keeps_iff cong: filter_cong)

subsection \<open>Counter objects\<close>

lemma map_of_assign: "map_of (assign k v obj) = (map_of obj)(k \<mapsto> v)"
  by (induction obj) (auto simp: fun_eq_iff)

lemma keys_assign: "fst ` set (assign k v obj) = insert k (fst ` set obj)"
  by (induction obj) auto

lemma distinct_assign: "distinct (map fst obj) \<Longrightarrow> distinct (map fst (assign k v obj))"
proof (induction obj)
  case Nil
  show ?case by simp
next
  case (Cons p ps)
  have "fst ` set (assign k v ps) = insert k (fst ` set ps)"
    by (rule keys_assign)
  with Cons show ?case by auto
qed

lemma count_at_bump: "count_at (bump k obj) l = count_at obj l + (if l = k then 1 else 0)"
  by (simp add: bump_def count_at_def map_of_assign)

lemma keys_bump: "fst ` set (bump k obj) = insert k (fst ` set obj)"
  by (simp add: bump_def keys_assign)

lemma distinct_bump: "distinct (map fst obj) \<Longrightarrow> distinct (map fst (bump k obj))"
  by (simp add: bump_def distinct_assign)

subsection \<open>The time series\<close>

lemma line_fold_count:
  "count_at (foldl (line_step w) g rs) l =
     count_at g l + length (filter (\<lambda>r. label_of w (time r) = l) rs)"
  by (induction rs arbitrary: g) (simp_all add: line_step_def count_at_bump)

lemma line_fold_keys:
  "fst ` set (foldl (line_step w) g rs) =
     fst ` set g \<union> (\<lambda>r. label_of w (time r)) ` set rs"
  by (induction rs arbitrary: g) (simp_all add: line_step_def keys_bump)

lemma line_fold_distinct:
  "distinct (map fst g) \<Longrightarrow> distinct (map fst (foldl (line_step w) g rs))"
  by (induction rs arbitrary: g) (simp_all add: line_step_def distinct_bump)

lemma line_labels:
  "sort (map fst (line_grouped w rs)) =
     sorted_list_of_set ((\<lambda>r. label_of w (time r)) ` set rs)"
proof -
  have d: "distinct (map fst (line_grouped w rs))"
    unfolding line_grouped_def by (rule line_fold_distinct) simp
  have s: "set (map fst (line_grouped w rs)) = (\<lambda>r. label_of w (time r)) ` set rs"
    unfolding line_grouped_def by (simp add: line_fold_keys)
  have "sorted_list_of_set (set (map fst (line_grouped w rs))) =
          sort (remdups (map fst (line_grouped w rs)))"
    by (rule sorted_list_of_set_sort_remdups)
  with d s show ?thesis by (simp add: distinct_remdups_id)
qed

lemma line_counts:
  "count_at (line_grouped w rs) l = length (filter (\<lambda>r. label_of w (time r) = l) rs)"
proof -
  have "count_at [] l = 0" by (simp add: count_at_def)
  then show ?thesis unfolding line_grouped_def by (simp add: line_fold_count)
qed

lemma lineChart_value:
  "lineChart (buildLineChart pg records) =
     Some \<lparr>chart_type = ''line'',
           chart_labels =
             sorted_list_of_set ((\<lambda>r. label_of (timeWindowEl pg) (time r)) ` set records),
           chart_data =
             map (\<lambda>l. length (filter (\<lambda>r. label_of (timeWindowEl pg) (time r) = l) records))
               (sorted_list_of_set ((\<lambda>r. label_of (timeWindowEl pg) (time r)) ` set records)),
           chart_title = ''Events over time''\<rparr>"
  by (simp add: buildLineChart_def Let_def line_labels line_counts)

subsection \<open>The magnitude and depth counters\<close>

lemma bar_step_shape:
  "bar_step
     [(''0-1'', a), (''1-2'', b), (''2-3'', c), (''3-4'', d), (''4-5'', e), (''5+'', f)] r =
   [(''0-1'', a + (if mag r < 1 then 1 else 0)),
    (''1-2'', b + (if 1 \<le> mag r \<and> mag r < 2 then 1 else 0)),
    (''2-3'', c + (if 2 \<le> mag r \<and> mag r < 3 then 1 else 0)),
    (''3-4'', d + (if 3 \<le> mag r \<and> mag r < 4 then 1 else 0)),
    (''4-5'', e + (if 4 \<le> mag r \<and> mag r < 5 then 1 else 0)),
    (''5+'', f + (if 5 \<le> mag r then 1 else 0))]"
  by (simp add: bar_step_def bump_def count_at_def)

lemma bar_fold:
  "foldl bar_step
     [(''0-1'', a), (''1-2'', b), (''2-3'', c), (''3-4'', d), (''4-5'', e), (''5+'', f)] rs =
   [(''0-1'', a + length (filter (\<lambda>r. mag r < 1) rs)),
    (''1-2'', b + length (filter (\<lambda>r. 1 \<le> mag r \<and> mag r < 2) rs)),
    (''2-3'', c + length (filter (\<lambda>r. 2 \<le> mag r \<and> mag r < 3) rs)),
    (''3-4'', d + length (filter (\<lambda>r. 3 \<le> mag r \<and> mag r < 4) rs)),
    (''4-5'', e + length (filter (\<lambda>r. 4 \<le> mag r \<and> mag r < 5) rs)),
    (''5+'', f + length (filter (\<lambda>r. 5 \<le> mag r) rs))]"
proof (induction rs arbitrary: a b c d e f)
  case Nil
  show ?case by simp
next
  case (Cons r rs)
  show ?case
    by (simp add: bar_step_shape Cons.IH)
qed

lemma pie_step_shape:
  "pie_step \<lparr>shallow = a, intermediate = b, deep = c\<rparr> r =
   \<lparr>shallow = a + (if depth_or_0 r < 70 then 1 else 0),
    intermediate = b + (if 70 \<le> depth_or_0 r \<and> depth_or_0 r < 300 then 1 else 0),
    deep = c + (if 300 \<le> depth_or_0 r then 1 else 0)\<rparr>"
  by (simp add: pie_step_def)

lemma pie_fold:
  "foldl pie_step \<lparr>shallow = a, intermediate = b, deep = c\<rparr> rs =
   \<lparr>shallow = a + length (filter (\<lambda>r. depth_or_0 r < 70) rs),
    intermediate = b + length (filter (\<lambda>r. 70 \<le> depth_or_0 r \<and> depth_or_0 r < 300) rs),
    deep = c + length (filter (\<lambda>r. 300 \<le> depth_or_0 r) rs)\<rparr>"
proof (induction rs arbitrary: a b c)
  case Nil
  show ?case by simp
next
  case (Cons r rs)
  show ?case
    by (simp add: pie_step_shape Cons.IH)
qed

subsection \<open>The markers\<close>

lemma map_step_fold:
  "markersLayer pg = Some ms \<Longrightarrow>
   foldl (map_step fmul) pg rs =
     pg\<lparr>markersLayer := Some (ms @ map (marker_of fmul) (filter geolocated rs))\<rparr>"
proof (induction rs arbitrary: pg ms)
  case Nil
  then show ?case by simp
next
  case (Cons r rs)
  show ?case
  proof (cases "geolocated r")
    case True
    then obtain la lo where ll: "lat r = Some la" "lon r = Some lo"
      by (auto simp: geolocated_def)
    have s: "map_step fmul pg r = pg\<lparr>markersLayer := Some (ms @ [marker_of fmul r])\<rparr>"
      using ll Cons.prems by (simp add: map_step_def addLayer_def marker_of_def)
    show ?thesis
      using True by (simp add: s Cons.IH [of _ "ms @ [marker_of fmul r]"])
  next
    case False
    then have "map_step fmul pg r = pg"
      by (auto simp: geolocated_def map_step_def split: option.splits)
    with False Cons show ?thesis by simp
  qed
qed

lemma updateMap_markers:
  "updateMap fmul pg records =
     pg\<lparr>markersLayer := Some (map (marker_of fmul) (filter geolocated (take 500 records)))\<rparr>"
proof -
  have "markersLayer (clearLayers (if markersLayer pg = None then initMap pg else pg)) = Some []"
    by (auto simp: clearLayers_def initMap_def)
  from map_step_fold [OF this] show ?thesis
    by (auto simp: updateMap_def Let_def clearLayers_def initMap_def)
qed

subsection \<open>The charts of magnitude and depth\<close>

lemma barChart_value:
  "barChart (buildBarChart pg records) =
     Some \<lparr>chart_type = ''bar'',
           chart_labels = [''0-1'', ''1-2'', ''2-3'', ''3-4'', ''4-5'', ''5+''],
           chart_data =
             [length (filter (\<lambda>r. mag r < 1) records),
              length (filter (\<lambda>r. 1 \<le> mag r \<and> mag r < 2) records),
              length (filter (\<lambda>r. 2 \<le> mag r \<and> mag r < 3) records),
              length (filter (\<lambda>r. 3 \<le> mag r \<and> mag r < 4) records),
              length (filter (\<lambda>r. 4 \<le> mag r \<and> mag r < 5) records),
              length (filter (\<lambda>r. 5 \<le> mag r) records)],
           chart_title = ''Magnitude distribution''\<rparr>"
  by (simp add: buildBarChart_def bar_buckets_def bar_fold count_at_def)

lemma depth_or_0_km: "depth_or_0 r = depth_km r"
  by (simp add: depth_or_0_def depth_km_def split: option.splits)

lemma pieChart_value:
  "pieChart (buildPieChart pg records) =
     Some \<lparr>chart_type = ''doughnut'',
           chart_labels = [''Shallow (0-70km)'', ''Intermediate (70-300km)'', ''Deep (300+ km)''],
           chart_data =
             [length (filter (\<lambda>r. depth_km r < 70) records),
              length (filter (\<lambda>r. 70 \<le> depth_km r \<and> depth_km r < 300) records),
              length (filter (\<lambda>r. 300 \<le> depth_km r) records)],
           chart_title = ''Depth categories''\<rparr>"
  by (simp add: buildPieChart_def pie_cats_def pie_fold depth_or_0_km)

lemma six_buckets_cover:
  "length (filter (\<lambda>r. mag r < 1) rs)
   + length (filter (\<lambda>r. 1 \<le> mag r \<and> mag r < 2) rs)
   + length (filter (\<lambda>r. 2 \<le> mag r \<and> mag r < 3) rs)
   + length (filter (\<lambda>r. 3 \<le> mag r \<and> mag r < 4) rs)
   + length (filter (\<lambda>r. 4 \<le> mag r \<and> mag r < 5) rs)
   + length (filter (\<lambda>r. 5 \<le> mag r) rs) = length rs"
  by (induction rs) auto

lemma three_classes_cover:
  "length (filter (\<lambda>r. depth_km r < 70) rs)
   + length (filter (\<lambda>r. 70 \<le> depth_km r \<and> depth_km r < 300) rs)
   + length (filter (\<lambda>r. 300 \<le> depth_km r) rs) = length rs"
  by (induction rs) auto

text \<open>
  \<^bold>\<open>C10.\<close> Every record is counted once by the magnitude chart and once by the depth
  chart: the six magnitude counts add up to the number of records, and so do the three
  depth counts.
\<close>

theorem bucket_counts_sum_to_length:
  "(\<exists>c. barChart (buildBarChart pg records) = Some c \<and>
        sum_list (chart_data c) = length records) \<and>
   (\<exists>c. pieChart (buildPieChart pg records) = Some c \<and>
        sum_list (chart_data c) = length records)"
proof
  show "\<exists>c. barChart (buildBarChart pg records) = Some c \<and>
          sum_list (chart_data c) = length records"
    using six_buckets_cover [of records] by (simp add: barChart_value)
  show "\<exists>c. pieChart (buildPieChart pg records) = Some c \<and>
          sum_list (chart_data c) = length records"
    using three_classes_cover [of records] by (simp add: pieChart_value)
qed

text \<open>
  \<^bold>\<open>C6.\<close> The depth chart always has the three labels in the same order, and counts a
  record as shallow when its depth is below 70, as intermediate from 70 to below 300 and
  as deep from 300 on, a missing depth being read as 0 and so counted as shallow.
\<close>

theorem buildPieChart_classes:
  "pieChart (buildPieChart pg records) =
     Some \<lparr>chart_type = ''doughnut'',
           chart_labels = [''Shallow (0-70km)'', ''Intermediate (70-300km)'', ''Deep (300+ km)''],
           chart_data =
             [length (filter (\<lambda>r. depth_km r < 70) records),
              length (filter (\<lambda>r. 70 \<le> depth_km r \<and> depth_km r < 300) records),
              length (filter (\<lambda>r. 300 \<le> depth_km r) records)],
           chart_title = ''Depth categories''\<rparr>"
  by (rule pieChart_value)

text \<open>
  \<^bold>\<open>C5, as amended.\<close> The magnitude chart always has the six labels in the same order;
  the first bucket counts every magnitude below 1, negative ones included, the next four
  count the magnitudes of [1,2), [2,3), [3,4) and [4,5), and the last those from 5 on.
\<close>

theorem buildBarChart_buckets:
  "barChart (buildBarChart pg records) =
     Some \<lparr>chart_type = ''bar'',
           chart_labels = [''0-1'', ''1-2'', ''2-3'', ''3-4'', ''4-5'', ''5+''],
           chart_data =
             [length (filter (\<lambda>r. mag r < 1) records),
              length (filter (\<lambda>r. 1 \<le> mag r \<and> mag r < 2) records),
              length (filter (\<lambda>r. 2 \<le> mag r \<and> mag r < 3) records),
              length (filter (\<lambda>r. 3 \<le> mag r \<and> mag r < 4) records),
              length (filter (\<lambda>r. 4 \<le> mag r \<and> mag r < 5) records),
              length (filter (\<lambda>r. 5 \<le> mag r) records)],
           chart_title = ''Magnitude distribution''\<rparr>"
  by (rule barChart_value)

text \<open>
  \<^bold>\<open>C5, as stated,\<close> fails on an event of magnitude -1: the bucket 0-1 counts it, and
  [0,1) does not contain it.
\<close>

theorem buildBarChart_negative_counterexample:
  "barChart (buildBarChart page0 [quake (- 1)]) =
     Some \<lparr>chart_type = ''bar'',
           chart_labels = [''0-1'', ''1-2'', ''2-3'', ''3-4'', ''4-5'', ''5+''],
           chart_data = [1, 0, 0, 0, 0, 0],
           chart_title = ''Magnitude distribution''\<rparr> \<and>
   counts_by_interval [quake (- 1)] = [0, 0, 0, 0, 0, 0]"
  by (simp add: barChart_value counts_by_interval_def quake_def)

subsection \<open>Normalisation and the threshold\<close>

text \<open>
  \<^bold>\<open>C2.\<close> \<^verbatim>\<open>normalizeFeatures\<close> returns, in their order in the input, the
  normalisations of exactly the features that have both a magnitude and a time; the
  normalisation copies each field and takes \<open>lon\<close>, \<open>lat\<close> and \<open>depth\<close> from positions
  0, 1 and 2 of the coordinates, which are all absent when the coordinates are missing.
\<close>

theorem normalizeFeatures_complete_in_order:
  "list_all2 normalized_from (filter has_mag_and_time features) (normalizeFeatures features)"
  by (rule normalize_all2)

text \<open>
  \<^bold>\<open>C3.\<close> With the region text unchanged, what \<^verbatim>\<open>filterRecords\<close> retains under a
  threshold is retained under every lower threshold: the result for the higher threshold
  is a subsequence of the result for the lower one.
\<close>

theorem filterRecords_monotonic:
  assumes "minMag_of pf pa \<le> minMag_of pf pb" and "regionEl pa = regionEl pb"
  shows "subseq (filterRecords pf pb records) (filterRecords pf pa records) \<and>
         set (filterRecords pf pb records) \<subseteq> set (filterRecords pf pa records)"
proof -
  let ?rt = "regionText_of pb"
  have rt: "regionText_of pa = ?rt"
    using assms(2) by (simp add: regionText_of_def)
  have "filter (keeps (minMag_of pf pb) ?rt) (filter (keeps (minMag_of pf pa) ?rt) records) =
          filter (keeps (minMag_of pf pb) ?rt) records"
    using keeps_mono [OF assms(1)] by (auto simp: filter_filter intro: filter_cong)
  moreover have "subseq
      (filter (keeps (minMag_of pf pb) ?rt) (filter (keeps (minMag_of pf pa) ?rt) records))
      (filter (keeps (minMag_of pf pa) ?rt) records)"
    by (rule subseq_filter_left)
  ultimately have s: "subseq (filterRecords pf pb records) (filterRecords pf pa records)"
    by (simp add: filterRecords_def rt)
  have "set (filterRecords pf pb records) \<subseteq> set (filterRecords pf pa records)"
    using keeps_mono [OF assms(1)] by (auto simp: filterRecords_def rt)
  with s show ?thesis by simp
qed

theorem filterRecords_monotonic_witness:
  "minMag_of parse_digit (page0\<lparr>minMagEl := ''3''\<rparr>)
     \<le> minMag_of parse_digit (page0\<lparr>minMagEl := ''5''\<rparr>) \<and>
   filterRecords parse_digit (page0\<lparr>minMagEl := ''3''\<rparr>) [quake 2.5, quake 5.2, quake 4]
     = [quake 5.2, quake 4] \<and>
   filterRecords parse_digit (page0\<lparr>minMagEl := ''5''\<rparr>) [quake 2.5, quake 5.2, quake 4]
     = [quake 5.2] \<and>
   subseq (filterRecords parse_digit (page0\<lparr>minMagEl := ''5''\<rparr>) [quake 2.5, quake 5.2, quake 4])
     (filterRecords parse_digit (page0\<lparr>minMagEl := ''3''\<rparr>) [quake 2.5, quake 5.2, quake 4])"
proof -
  have a: "minMag_of parse_digit (page0\<lparr>minMagEl := ''3''\<rparr>) = 3"
    by (simp add: minMag_of_def parse_digit_def)
  have b: "minMag_of parse_digit (page0\<lparr>minMagEl := ''5''\<rparr>) = 5"
    by (simp add: minMag_of_def parse_digit_def)
  have r: "regionText_of (page0\<lparr>minMagEl := m\<rparr>) = []" for m
    by (simp add: regionText_of_def page0_def trim_def toLowerCase_def)
  have h: "minMag_of parse_digit (page0\<lparr>minMagEl := ''3''\<rparr>)
             \<le> minMag_of parse_digit (page0\<lparr>minMagEl := ''5''\<rparr>)"
    by (simp add: a b)
  have f3: "filterRecords parse_digit (page0\<lparr>minMagEl := ''3''\<rparr>)
              [quake 2.5, quake 5.2, quake 4] = [quake 5.2, quake 4]"
    by (simp add: filterRecords_def a r keeps_def quake_def)
  have f5: "filterRecords parse_digit (page0\<lparr>minMagEl := ''5''\<rparr>)
              [quake 2.5, quake 5.2, quake 4] = [quake 5.2]"
    by (simp add: filterRecords_def b r keeps_def quake_def)
  from filterRecords_monotonic [OF h, of "[quake 2.5, quake 5.2, quake 4]"]
  show ?thesis using h f3 f5 by simp
qed

subsection \<open>The filter criteria\<close>

text \<open>
  \<^bold>\<open>C4, as amended.\<close> \<^verbatim>\<open>filterRecords\<close> retains, in their order, exactly the records
  whose magnitude is at least the threshold and, when the region text is not empty once
  its surrounding white space is trimmed, whose place is present and contains the trimmed
  text without regard to case; a region text that trims to the empty string switches the
  place check off.
\<close>

theorem filterRecords_criteria:
  "filterRecords pf pg records =
     filter (\<lambda>r. minMag_of pf pg \<le> mag r \<and>
                 (trim (regionEl pg) = [] \<or>
                  (\<exists>p. place r = Some p \<and> contains_ci p (trim (regionEl pg)))))
       records"
  by (rule filterRecords_char)

theorem filterRecords_criteria_witness:
  "trim (regionEl (page0\<lparr>regionEl := '' ALASKA ''\<rparr>)) = ''ALASKA'' \<and>
   filterRecords parse_digit (page0\<lparr>regionEl := '' ALASKA ''\<rparr>)
     [quake 2, quake 4, (quake 5)\<lparr>place := None\<rparr>, (quake 6)\<lparr>place := Some ''Fiji''\<rparr>, quake 7]
   = [quake 4, quake 7]"
proof -
  have t: "trim '' ALASKA '' = ''ALASKA''"
    by (simp add: trim_def is_space_def)
  have m: "minMag_of parse_digit (page0\<lparr>regionEl := '' ALASKA ''\<rparr>) = 3"
    by (simp add: minMag_of_def parse_digit_def page0_def)
  have y: "contains_ci ''10 km N of Anchorage, Alaska'' ''ALASKA''"
    unfolding contains_ci_def includes_str_sublist [symmetric] by code_simp
  have n: "\<not> contains_ci ''Fiji'' ''ALASKA''"
    unfolding contains_ci_def includes_str_sublist [symmetric] by code_simp
  show ?thesis
    using filterRecords_criteria [of parse_digit "page0\<lparr>regionEl := '' ALASKA ''\<rparr>"
        "[quake 2, quake 4, (quake 5)\<lparr>place := None\<rparr>, (quake 6)\<lparr>place := Some ''Fiji''\<rparr>, quake 7]"]
    by (simp add: t m y n quake_def)
qed

text \<open>
  \<^bold>\<open>C4, as stated,\<close> fails for a region text of one space: it is not empty, yet a record
  without a place is retained.
\<close>

theorem filterRecords_blank_region_counterexample:
  "regionEl (page0\<lparr>regionEl := '' ''\<rparr>) \<noteq> [] \<and>
   place ((quake 4)\<lparr>place := None\<rparr>) = None \<and>
   filterRecords parse_digit (page0\<lparr>regionEl := '' ''\<rparr>) [(quake 4)\<lparr>place := None\<rparr>]
     = [(quake 4)\<lparr>place := None\<rparr>]"
proof -
  have t: "regionText_of (page0\<lparr>regionEl := '' ''\<rparr>) = []"
    by (simp add: regionText_of_def trim_def is_space_def toLowerCase_def)
  have m: "minMag_of parse_digit (page0\<lparr>regionEl := '' ''\<rparr>) = 3"
    by (simp add: minMag_of_def parse_digit_def page0_def)
  show ?thesis
    by (simp add: filterRecords_def t m keeps_def quake_def)
qed

subsection \<open>The time series chart\<close>

text \<open>
  \<^bold>\<open>C7.\<close> The line chart's labels are the distinct labels of the records in ascending
  lexicographic order, each paired with the number of records that carry it. The label of
  a record comes from its timestamp in UTC: the hour and \<^verbatim>\<open>:00\<close> for the window key
  \<^verbatim>\<open>hour\<close>; month, slash, day, a space, the hour and \<^verbatim>\<open>:00\<close> for \<^verbatim>\<open>day\<close>; month,
  slash and day for any other key.
\<close>

theorem buildLineChart_sorted_counts:
  "(let labels = sorted_list_of_set ((\<lambda>r. label_of (timeWindowEl pg) (time r)) ` set records)
    in lineChart (buildLineChart pg records) =
         Some \<lparr>chart_type = ''line'',
               chart_labels = labels,
               chart_data =
                 map (\<lambda>l. length (filter (\<lambda>r. label_of (timeWindowEl pg) (time r) = l) records))
                   labels,
               chart_title = ''Events over time''\<rparr> \<and>
       sorted_wrt (<) labels \<and>
       set labels = (\<lambda>r. label_of (timeWindowEl pg) (time r)) ` set records) \<and>
   label_of ''hour'' t = num_str (getUTCHours t) @ '':00'' \<and>
   label_of ''day'' t =
     num_str (map_option Suc (getUTCMonth t)) @ ''/'' @ num_str (getUTCDate t) @ '' ''
       @ num_str (getUTCHours t) @ '':00'' \<and>
   (w \<noteq> ''hour'' \<and> w \<noteq> ''day'' \<longrightarrow>
      label_of w t = num_str (map_option Suc (getUTCMonth t)) @ ''/'' @ num_str (getUTCDate t))"
  by (simp add: lineChart_value label_of_def Let_def)

theorem buildLineChart_sorted_counts_witness:
  "lineChart (buildLineChart (page0\<lparr>timeWindowEl := ''hour''\<rparr>)
      [(quake 1)\<lparr>time := 1699953200000\<rparr>, (quake 2)\<lparr>time := 1699956800000\<rparr>,
       (quake 3)\<lparr>time := 1699953200000\<rparr>]) =
     Some \<lparr>chart_type = ''line'',
           chart_labels = [''10:00'', ''9:00''],
           chart_data = [1, 2],
           chart_title = ''Events over time''\<rparr> \<and>
   label_of ''day'' 1700000000000 = ''11/14 22:00'' \<and>
   label_of ''week'' 1700000000000 = ''11/14''"
proof -
  let ?pg = "page0\<lparr>timeWindowEl := ''hour''\<rparr>"
  let ?recs = "[(quake 1)\<lparr>time := 1699953200000\<rparr>, (quake 2)\<lparr>time := 1699956800000\<rparr>,
      (quake 3)\<lparr>time := 1699953200000\<rparr>]"
  let ?labels = "[''9:00'', ''10:00'', ''9:00'']"
  have l1: "label_of ''hour'' 1699953200000 = ''9:00''"
    by code_simp
  have l2: "label_of ''hour'' 1699956800000 = ''10:00''"
    by code_simp
  have i: "(\<lambda>r. label_of (timeWindowEl ?pg) (time r)) ` set ?recs = set ?labels"
    by (simp add: l1 l2)
  have "sort (remdups ?labels) = [''10:00'', ''9:00'']"
    by code_simp
  then have s: "sorted_list_of_set (set ?labels) = [''10:00'', ''9:00'']"
    by (simp only: sorted_list_of_set_sort_remdups)
  have c: "map (\<lambda>l. length (filter (\<lambda>r. label_of (timeWindowEl ?pg) (time r) = l) ?recs))
      [''10:00'', ''9:00''] = [1, 2]"
    by (simp add: l1 l2)
  have d: "label_of ''day'' 1700000000000 = ''11/14 22:00''"
    by code_simp
  have w: "label_of ''week'' 1700000000000 = ''11/14''"
    by code_simp
  from buildLineChart_sorted_counts [of ?pg ?recs 1700000000000 "''week''"]
  have "lineChart (buildLineChart ?pg ?recs) =
     Some \<lparr>chart_type = ''line'',
           chart_labels = [''10:00'', ''9:00''],
           chart_data = [1, 2],
           chart_title = ''Events over time''\<rparr>"
    unfolding Let_def i s c by simp
  with d w show ?thesis by simp
qed

subsection \<open>The end-to-end example\<close>

text \<open>
  \<^bold>\<open>C8.\<close> The end-to-end example: of the three features, normalisation keeps the two
  that have a magnitude; with a threshold of 3 and no region text the filter keeps the
  California event alone; and the magnitude chart of that result counts one event in the
  bucket 5+ and none elsewhere.
\<close>

theorem pipeline_example:
  assumes "pf (minMagEl pg) = Some 3" and "regionEl pg = []"
  shows "length (normalizeFeatures [alaska T1, california T2, unrated T3]) = 2 \<and>
         filterRecords pf pg (normalizeFeatures [alaska T1, california T2, unrated T3]) =
           [\<lparr>id_r = Some ''ci2'', time = T2, mag = 5.2, place = Some ''California'',
             url = None, depth = Some 8, lon = Some (- 118), lat = Some 34\<rparr>] \<and>
         barChart (buildBarChart pg
             (filterRecords pf pg (normalizeFeatures [alaska T1, california T2, unrated T3]))) =
           Some \<lparr>chart_type = ''bar'',
                 chart_labels = [''0-1'', ''1-2'', ''2-3'', ''3-4'', ''4-5'', ''5+''],
                 chart_data = [0, 0, 0, 0, 0, 1],
                 chart_title = ''Magnitude distribution''\<rparr>"
proof -
  have n: "normalizeFeatures [alaska T1, california T2, unrated T3] =
      [\<lparr>id_r = Some ''ak1'', time = T1, mag = 2.5, place = Some ''Alaska'',
        url = None, depth = Some 35, lon = Some (- 150), lat = Some 61\<rparr>,
       \<lparr>id_r = Some ''ci2'', time = T2, mag = 5.2, place = Some ''California'',
        url = None, depth = Some 8, lon = Some (- 118), lat = Some 34\<rparr>]"
    by (simp add: normalizeFeatures_def map_filter_simps kept_def shape_def props_of_def
        coords_of_def at_index_def alaska_def california_def unrated_def)
  have m: "minMag_of pf pg = 3"
    using assms(1) by (simp add: minMag_of_def)
  have r: "regionText_of pg = []"
    using assms(2) by (simp add: regionText_of_def trim_def toLowerCase_def)
  have f: "filterRecords pf pg (normalizeFeatures [alaska T1, california T2, unrated T3]) =
      [\<lparr>id_r = Some ''ci2'', time = T2, mag = 5.2, place = Some ''California'',
        url = None, depth = Some 8, lon = Some (- 118), lat = Some 34\<rparr>]"
    by (simp add: n filterRecords_def m r keeps_def)
  show ?thesis
    by (simp add: f barChart_value) (simp add: n)
qed

theorem pipeline_example_witness:
  "parse_digit (minMagEl page0) = Some 3 \<and> regionEl page0 = [] \<and>
   length (normalizeFeatures [alaska 1700000000000, california 1700000060000,
             unrated 1700000120000]) = 2 \<and>
   filterRecords parse_digit page0
     (normalizeFeatures [alaska 1700000000000, california 1700000060000,
        unrated 1700000120000]) =
     [\<lparr>id_r = Some ''ci2'', time = 1700000060000, mag = 5.2, place = Some ''California'',
       url = None, depth = Some 8, lon = Some (- 118), lat = Some 34\<rparr>] \<and>
   barChart (buildBarChart page0
       (filterRecords parse_digit page0
          (normalizeFeatures [alaska 1700000000000, california 1700000060000,
             unrated 1700000120000]))) =
     Some \<lparr>chart_type = ''bar'',
           chart_labels = [''0-1'', ''1-2'', ''2-3'', ''3-4'', ''4-5'', ''5+''],
           chart_data = [0, 0, 0, 0, 0, 1],
           chart_title = ''Magnitude distribution''\<rparr>"
proof -
  have a: "parse_digit (minMagEl page0) = Some 3"
    by (simp add: parse_digit_def page0_def)
  have b: "regionEl page0 = []"
    by (simp add: page0_def)
  from pipeline_example [of parse_digit page0 1700000000000 1700000060000 1700000120000, OF a b]
  show ?thesis using a b by blast
qed

subsection \<open>The map\<close>

text \<open>
  \<^bold>\<open>C9, as amended.\<close> \<^verbatim>\<open>updateMap\<close> replaces whatever the layer group held by one
  circle for each geolocated record among the first 500 records of the list, in their
  order. The circle of a record sits at its latitude and longitude, has the radius
  \<open>max 4000 (mag * 40000)\<close>, the product being the runtime's, and the colour
  \<^verbatim>\<open>#ff4d4f\<close> (red) from magnitude 5 on, \<^verbatim>\<open>#ff9f40\<close> (orange) from 4 on and
  \<^verbatim>\<open>#36a2eb\<close> (blue) below.
\<close>

theorem updateMap_circles:
  "updateMap fmul pg records =
     pg\<lparr>markersLayer := Some (map (marker_of fmul) (filter geolocated (take 500 records)))\<rparr> \<and>
   radius (marker_of fmul r) = max 4000 (fmul (mag r) 40000) \<and>
   color (marker_of fmul r) =
     (if 5 \<le> mag r then ''#ff4d4f'' else if 4 \<le> mag r then ''#ff9f40'' else ''#36a2eb'') \<and>
   (geolocated r \<longrightarrow>
      lat r = Some (c_lat (marker_of fmul r)) \<and> lon r = Some (c_lon (marker_of fmul r)))"
  by (auto simp: updateMap_markers marker_of_def circle_of_def radius_of_def color_of_def
      geolocated_def Let_def)

theorem updateMap_circles_witness:
  "geolocated (quake 6) \<and>
   markersLayer (updateMap (*) (page0\<lparr>markersLayer := Some [marker_of (*) (quake 9)]\<rparr>)
      [quake 6, (quake 4)\<lparr>lat := None\<rparr>, quake 1]) =
     Some [marker_of (*) (quake 6), marker_of (*) (quake 1)] \<and>
   radius (marker_of (*) (quake 6)) = 240000 \<and>
   color (marker_of (*) (quake 6)) = ''#ff4d4f'' \<and>
   c_lat (marker_of (*) (quake 6)) = 61 \<and> c_lon (marker_of (*) (quake 6)) = - 150"
proof -
  have g: "geolocated (quake 6)"
    by (simp add: geolocated_def quake_def)
  have n: "\<not> geolocated ((quake 4)\<lparr>lat := None\<rparr>)"
    by (simp add: geolocated_def)
  have s: "geolocated (quake 1)"
    by (simp add: geolocated_def quake_def)
  have m: "mag (quake 6) = 6" "lat (quake 6) = Some 61" "lon (quake 6) = Some (- 150)"
    by (simp_all add: quake_def)
  from updateMap_circles [of "(*)" "page0\<lparr>markersLayer := Some [marker_of (*) (quake 9)]\<rparr>"
      "[quake 6, (quake 4)\<lparr>lat := None\<rparr>, quake 1]" "quake 6"]
  show ?thesis
    using g by (simp add: n s m)
qed

text \<open>
  \<^bold>\<open>C9, as stated,\<close> fails on a list of 501 records whose first has no latitude: all
  of its 500 geolocated records are among the first 500 geolocated records, and the map
  gets 499 circles.
\<close>

theorem updateMap_first_500_counterexample:
  "take 500 (filter geolocated ((quake 1)\<lparr>lat := None\<rparr> # replicate 500 (quake 1))) =
     replicate 500 (quake 1) \<and>
   markersLayer (updateMap (*) page0 ((quake 1)\<lparr>lat := None\<rparr> # replicate 500 (quake 1))) =
     Some (replicate 499 (marker_of (*) (quake 1)))"
proof -
  have g: "geolocated (quake 1)"
    by (simp add: geolocated_def quake_def)
  have n: "\<not> geolocated ((quake 1)\<lparr>lat := None\<rparr>)"
    by (simp add: geolocated_def)
  have t: "take 500 ((quake 1)\<lparr>lat := None\<rparr> # replicate 500 (quake 1)) =
      (quake 1)\<lparr>lat := None\<rparr> # replicate 499 (quake 1)"
    by (simp add: take_Cons')
  show ?thesis
    unfolding updateMap_markers t by (simp add: g n)
qed

subsection \<open>Fetching\<close>

text \<open>
  \<^bold>\<open>C1.\<close> \<^verbatim>\<open>fetchEarthquakes\<close> never throws. When the fetch fails (the network
  rejects, the status is outside 200 to 299, or the body does not parse) it returns the
  empty array and leaves a failure message in the status line, which for a status \<open>n\<close>
  reads \<^verbatim>\<open>HTTP n\<close>. When a successful response has no feature list it returns the
  empty array and reports 0 events fetched.
\<close>

theorem fetchEarthquakes_degrades:
  "(\<exists>pg' features. fetchEarthquakes net now pg = Inr (pg', features)) \<and>
   (failure (net (getFeedUrl (timeWindowEl pg))) \<longrightarrow>
      (\<exists>m. fetchEarthquakes net now pg = Inr (pg\<lparr>STATUS := Failed m\<rparr>, []))) \<and>
   (net (getFeedUrl (timeWindowEl pg)) = Resolved res \<and> \<not> ok res \<longrightarrow>
      fetchEarthquakes net now pg =
        Inr (pg\<lparr>STATUS := Failed (''HTTP '' @ show_nat (res_status res))\<rparr>, [])) \<and>
   (net (getFeedUrl (timeWindowEl pg)) = Resolved res \<and> ok res \<and> res_json res = Inr (Doc None) \<longrightarrow>
      fetchEarthquakes net now pg = Inr (pg\<lparr>STATUS := Fetched 0 now\<rparr>, []))"
proof (intro conjI impI)
  show "\<exists>pg' features. fetchEarthquakes net now pg = Inr (pg', features)"
    by (simp add: fetchEarthquakes_def Let_def split: sum.splits prod.splits)
next
  assume "failure (net (getFeedUrl (timeWindowEl pg)))"
  then show "\<exists>m. fetchEarthquakes net now pg = Inr (pg\<lparr>STATUS := Failed m\<rparr>, [])"
    by (auto simp: fetchEarthquakes_def try_block_def failure_def Let_def
        split: fetched.splits sum.splits document.splits)
next
  assume "net (getFeedUrl (timeWindowEl pg)) = Resolved res \<and> \<not> ok res"
  then show "fetchEarthquakes net now pg =
      Inr (pg\<lparr>STATUS := Failed (''HTTP '' @ show_nat (res_status res))\<rparr>, [])"
    by (simp add: fetchEarthquakes_def try_block_def message_def Let_def)
next
  assume "net (getFeedUrl (timeWindowEl pg)) = Resolved res \<and> ok res \<and>
    res_json res = Inr (Doc None)"
  then show "fetchEarthquakes net now pg = Inr (pg\<lparr>STATUS := Fetched 0 now\<rparr>, [])"
    by (simp add: fetchEarthquakes_def try_block_def Let_def)
qed

theorem fetchEarthquakes_degrades_witness:
  "failure (Resolved \<lparr>res_status = 503, res_json = Inl ''Unexpected token''\<rparr>) \<and>
   \<not> ok \<lparr>res_status = 503, res_json = Inl ''Unexpected token''\<rparr> \<and>
   fetchEarthquakes (\<lambda>u. Resolved \<lparr>res_status = 503, res_json = Inl ''Unexpected token''\<rparr>)
       ''10:15:00'' page0 =
     Inr (page0\<lparr>STATUS := Failed ''HTTP 503''\<rparr>, []) \<and>
   ok \<lparr>res_status = 200, res_json = Inr (Doc None)\<rparr> \<and>
   fetchEarthquakes (\<lambda>u. Resolved \<lparr>res_status = 200, res_json = Inr (Doc None)\<rparr>)
       ''10:15:00'' page0 =
     Inr (page0\<lparr>STATUS := Fetched 0 ''10:15:00''\<rparr>, [])"
proof -
  let ?bad = "\<lparr>res_status = 503, res_json = Inl ''Unexpected token''\<rparr>"
  let ?empty = "\<lparr>res_status = 200, res_json = Inr (Doc None)\<rparr>"
  have b: "\<not> ok ?bad" by (simp add: ok_def)
  have f: "failure (Resolved ?bad)" by (simp add: failure_def)
  have e: "ok ?empty" by (simp add: ok_def)
  have n: "show_nat 503 = ''503''" by code_simp
  from fetchEarthquakes_degrades [of "\<lambda>u. Resolved ?bad" "''10:15:00''" page0 ?bad]
  have 1: "fetchEarthquakes (\<lambda>u. Resolved ?bad) ''10:15:00'' page0 =
      Inr (page0\<lparr>STATUS := Failed ''HTTP 503''\<rparr>, [])"
    using b by (simp add: n)
  from fetchEarthquakes_degrades [of "\<lambda>u. Resolved ?empty" "''10:15:00''" page0 ?empty]
  have 2: "fetchEarthquakes (\<lambda>u. Resolved ?empty) ''10:15:00'' page0 =
      Inr (page0\<lparr>STATUS := Fetched 0 ''10:15:00''\<rparr>, [])"
    using e by simp
  from f b 1 e 2 show ?thesis by blast
qed

end
